theory Spec2Isabelle
  imports Main
begin

section \<open>Data model of \<^verbatim>\<open>authz_manager_external_state.cpp\<close>\<close>

subsection \<open>Status and error codes\<close>

text \<open>
  The members of \<^verbatim>\<open>ErrorCodes\<close> that the file names, and \<open>OtherCode\<close> for every
  other member of the enumeration (declared in \<^verbatim>\<open>mongo/base/error_codes.err\<close>).
\<close>

datatype ErrorCodes =
    OK
  | InternalError
  | BadValue
  | DuplicateKey
  | UnknownError
  | UserNotFound
  | UnsupportedFormat
  | UserModificationFailed
  | NoMatchingDocument
  | OtherCode nat

text \<open>
  \<^verbatim>\<open>Status(code, reason, location = 0)\<close>: the three values a status carries.
\<close>

record Status =
  code :: ErrorCodes
  reason :: string
  location :: int

definition mkStatus :: "ErrorCodes \<Rightarrow> string \<Rightarrow> Status" where
  "mkStatus c r = \<lparr>code = c, reason = r, location = 0\<rparr>"

definition Status_OK :: Status where
  "Status_OK = \<lparr>code = OK, reason = [], location = 0\<rparr>"

definition isOK :: "Status \<Rightarrow> bool" where
  "isOK s = (code s = OK)"

subsection \<open>BSON documents\<close>

text \<open>
  A document is the sequence of its fields in the order they were appended. \<open>EOO\<close> is
  the element \<^verbatim>\<open>operator[]\<close> returns for a field the document does not have.
\<close>

datatype BSONElement =
    EOO
  | BString string
  | jstNULL
  | NumberInt int
  | Bool bool
  | Object "(string \<times> BSONElement) list"

type_synonym BSONObj = "(string \<times> BSONElement) list"

text \<open>\<^verbatim>\<open>BSONObj::operator[]\<close>: the first element with that field name, or \<open>EOO\<close>.\<close>

fun getField :: "BSONObj \<Rightarrow> string \<Rightarrow> BSONElement" where
  "getField [] name = EOO"
| "getField ((k, v) # rest) name = (if k = name then v else getField rest name)"

text \<open>
  What leaves a function other than by \<^verbatim>\<open>return\<close>: \<^verbatim>\<open>BSONElement::String()\<close> raises
  a user assertion on an element that is not a string, and a failed \<^verbatim>\<open>dassert\<close> stops
  a debug build.
\<close>

datatype fault = WrongFieldType | DassertFailed

definition String_of :: "BSONElement \<Rightarrow> fault + string" where
  "String_of el = (case el of BString s \<Rightarrow> Inr s | _ \<Rightarrow> Inl WrongFieldType)"

subsection \<open>User names\<close>

text \<open>
  Modelled from the spec: the class \<^verbatim>\<open>UserName\<close> is declared in \<^verbatim>\<open>user_name.h\<close>.
  An identity is a (user, source) pair, and equality requires both fields equal.
  \<open>db\<close> is what \<^verbatim>\<open>getDB()\<close> returns, \<open>user\<close> what \<^verbatim>\<open>getUser()\<close> returns.
\<close>

record UserName =
  user :: string
  db :: string

subsection \<open>Decimal output of \<^verbatim>\<open>str::stream() << int\<close>\<close>

text \<open>
  The version and the counts are C++ \<^verbatim>\<open>int\<close>s on which the file does no arithmetic:
  it compares them with constants and prints the version. They are modelled as \<open>int\<close>,
  and \<open>decimal\<close> is the text the stream writes for one: a minus sign for a negative
  number, then the digits without leading zeros.
\<close>

definition digit :: "nat \<Rightarrow> char" where
  "digit d = ''0123456789'' ! d"

fun decimal_nat :: "nat \<Rightarrow> string" where
  "decimal_nat n = (if n < 10 then [digit n] else decimal_nat (n div 10) @ [digit (n mod 10)])"

declare decimal_nat.simps [simp del]

definition decimal :: "int \<Rightarrow> string" where
  "decimal i = (if i < 0 then CHR ''-'' # decimal_nat (nat (- i)) else decimal_nat (nat i))"

subsection \<open>The store and the other collaborators\<close>

text \<open>
  The pure virtual members of the class (\<^verbatim>\<open>_findUser\<close>, \<^verbatim>\<open>insert\<close>, \<^verbatim>\<open>update\<close>,
  \<^verbatim>\<open>remove\<close>) are functions on a store state \<open>'s\<close>; each returns its status, the value
  it leaves in its output parameter, and the new state. The declarations the file
  uses from other headers are fields too: the name of \<^verbatim>\<open>internalSecurity.user\<close>,
  \<^verbatim>\<open>NamespaceString::validDBName\<close>, \<^verbatim>\<open>UserName::toString\<close> and
  \<^verbatim>\<open>UserName::getFullName\<close>, the four field-name constants of
  \<^verbatim>\<open>AuthorizationManager\<close>, and whether \<^verbatim>\<open>dassert\<close> is compiled in (a debug build).
\<close>

record 's ext =
  internalUserName :: UserName
  validDBName :: "string \<Rightarrow> bool"
  toString :: "UserName \<Rightarrow> string"
  getFullName :: "UserName \<Rightarrow> string"
  USER_NAME_FIELD_NAME :: string
  USER_SOURCE_FIELD_NAME :: string
  V1_USER_NAME_FIELD_NAME :: string
  V1_USER_SOURCE_FIELD_NAME :: string
  debugBuild :: bool
  s_findUser :: "string \<Rightarrow> BSONObj \<Rightarrow> 's \<Rightarrow> (Status \<times> BSONObj) \<times> 's"
  s_insert :: "string \<Rightarrow> BSONObj \<Rightarrow> BSONObj \<Rightarrow> 's \<Rightarrow> Status \<times> 's"
  s_update :: "string \<Rightarrow> BSONObj \<Rightarrow> BSONObj \<Rightarrow> bool \<Rightarrow> bool \<Rightarrow> BSONObj \<Rightarrow> 's
                 \<Rightarrow> (Status \<times> int) \<times> 's"
  s_remove :: "string \<Rightarrow> BSONObj \<Rightarrow> BSONObj \<Rightarrow> 's \<Rightarrow> (Status \<times> int) \<times> 's"

text \<open>
  Every call of a store member is recorded, with its arguments, in a log kept beside
  the store state; the log is how a theorem says which store calls an operation made.
\<close>

datatype store_call =
    FindUser string BSONObj
  | Insert string BSONObj BSONObj
  | Update string BSONObj BSONObj bool bool BSONObj
  | Remove string BSONObj BSONObj

record 's world =
  store :: 's
  calls :: "store_call list"

definition call_findUser ::
  "'s ext \<Rightarrow> string \<Rightarrow> BSONObj \<Rightarrow> 's world \<Rightarrow> (Status \<times> BSONObj) \<times> 's world" where
  "call_findUser e ns q w =
     (case s_findUser e ns q (store w) of
        (r, s') \<Rightarrow> (r, \<lparr>store = s', calls = calls w @ [FindUser ns q]\<rparr>))"

definition call_insert ::
  "'s ext \<Rightarrow> string \<Rightarrow> BSONObj \<Rightarrow> BSONObj \<Rightarrow> 's world \<Rightarrow> Status \<times> 's world" where
  "call_insert e ns doc wc w =
     (case s_insert e ns doc wc (store w) of
        (r, s') \<Rightarrow> (r, \<lparr>store = s', calls = calls w @ [Insert ns doc wc]\<rparr>))"

definition call_update ::
  "'s ext \<Rightarrow> string \<Rightarrow> BSONObj \<Rightarrow> BSONObj \<Rightarrow> bool \<Rightarrow> bool \<Rightarrow> BSONObj \<Rightarrow> 's world
     \<Rightarrow> (Status \<times> int) \<times> 's world" where
  "call_update e ns q u upsert multi wc w =
     (case s_update e ns q u upsert multi wc (store w) of
        (r, s') \<Rightarrow> (r, \<lparr>store = s', calls = calls w @ [Update ns q u upsert multi wc]\<rparr>))"

definition call_remove ::
  "'s ext \<Rightarrow> string \<Rightarrow> BSONObj \<Rightarrow> BSONObj \<Rightarrow> 's world \<Rightarrow> (Status \<times> int) \<times> 's world" where
  "call_remove e ns q wc w =
     (case s_remove e ns q wc (store w) of
        (r, s') \<Rightarrow> (r, \<lparr>store = s', calls = calls w @ [Remove ns q wc]\<rparr>))"

section \<open>The operations\<close>

text \<open>
  Lines 75 to 91 of \<^verbatim>\<open>getPrivilegeDocument\<close>, which both version branches reach:
  the lookup and the translation of its status. The second component of the result is
  the document stored through \<^verbatim>\<open>result\<close>, or \<open>None\<close> when nothing is stored.
\<close>

definition queryPrivilegeDocument ::
  "'s ext \<Rightarrow> UserName \<Rightarrow> string \<Rightarrow> BSONObj \<Rightarrow> 's world
     \<Rightarrow> (Status \<times> BSONObj option) \<times> 's world" where
  "queryPrivilegeDocument e userName usersNamespace query w =
     (case call_findUser e usersNamespace query w of
        ((found, userBSONObj), w') \<Rightarrow>
          if \<not> isOK found then
            if code found = UserNotFound then
              ((\<lparr>code = UserNotFound,
                 reason = ''auth: couldn't find user '' @ toString e userName @ '', ''
                            @ usersNamespace,
                 location = 0\<rparr>, None), w')
            else ((found, None), w')
          else ((Status_OK, Some userBSONObj), w'))"

definition getPrivilegeDocument ::
  "'s ext \<Rightarrow> UserName \<Rightarrow> int \<Rightarrow> 's world \<Rightarrow> (Status \<times> BSONObj option) \<times> 's world" where
  \<open>getPrivilegeDocument e userName authzVersion w =
     (if userName = internalUserName e then
        ((mkStatus InternalError ''Requested privilege document for the internal user'',
          None), w)
      else
        let dbname = db userName in
        if \<not> validDBName e dbname then
          ((mkStatus BadValue (''Bad database name "'' @ dbname @ ''"''), None), w)
        else if authzVersion = 1 then
          queryPrivilegeDocument e userName (dbname @ ''.system.users'')
            [(V1_USER_NAME_FIELD_NAME e, BString (user userName)),
             (V1_USER_SOURCE_FIELD_NAME e, jstNULL)] w
        else if authzVersion = 2 then
          queryPrivilegeDocument e userName ''admin.system.users''
            [(USER_NAME_FIELD_NAME e, BString (user userName)),
             (USER_SOURCE_FIELD_NAME e, BString (db userName))] w
        else
          ((mkStatus UnsupportedFormat
              (''Unrecognized authorization format version: '' @ decimal authzVersion),
            None), w))\<close>

definition hasAnyPrivilegeDocuments :: "'s ext \<Rightarrow> 's world \<Rightarrow> bool \<times> 's world" where
  "hasAnyPrivilegeDocuments e w =
     (case call_findUser e ''admin.system.users'' [] w of
        ((found, userBSONObj), w') \<Rightarrow> (isOK found, w'))"

definition insertPrivilegeDocument ::
  "'s ext \<Rightarrow> string \<Rightarrow> BSONObj \<Rightarrow> BSONObj \<Rightarrow> 's world \<Rightarrow> (fault + Status) \<times> 's world" where
  \<open>insertPrivilegeDocument e dbname userObj writeConcern w =
     (case call_insert e ''admin.system.users'' userObj writeConcern w of
        (status, w') \<Rightarrow>
          if isOK status then (Inr status, w')
          else if code status = DuplicateKey then
            (case String_of (getField userObj (USER_NAME_FIELD_NAME e)) of
               Inl f \<Rightarrow> (Inl f, w')
             | Inr name \<Rightarrow>
                 (case String_of (getField userObj (USER_SOURCE_FIELD_NAME e)) of
                    Inl f \<Rightarrow> (Inl f, w')
                  | Inr source \<Rightarrow>
                      (Inr (mkStatus DuplicateKey
                              (''User "'' @ name @ ''@'' @ source @ ''" already exists'')),
                       w')))
          else if code status = UnknownError then
            (Inr (mkStatus UserModificationFailed (reason status)), w')
          else (Inr status, w'))\<close>

definition updateOne ::
  "'s ext \<Rightarrow> string \<Rightarrow> BSONObj \<Rightarrow> BSONObj \<Rightarrow> bool \<Rightarrow> BSONObj \<Rightarrow> 's world
     \<Rightarrow> (fault + Status) \<times> 's world" where
  "updateOne e collectionName query updatePattern upsert writeConcern w =
     (case call_update e collectionName query updatePattern upsert False writeConcern w of
        ((status, numUpdated), w') \<Rightarrow>
          if \<not> isOK status then (Inr status, w')
          else if debugBuild e \<and> \<not> (numUpdated = 1 \<or> numUpdated = 0) then
            (Inl DassertFailed, w')
          else if numUpdated = 0 then
            (Inr (mkStatus NoMatchingDocument ''No document found''), w')
          else (Inr Status_OK, w'))"

definition updatePrivilegeDocument ::
  "'s ext \<Rightarrow> UserName \<Rightarrow> BSONObj \<Rightarrow> BSONObj \<Rightarrow> 's world \<Rightarrow> (fault + Status) \<times> 's world" where
  "updatePrivilegeDocument e usr updateObj writeConcern w =
     (case updateOne e ''admin.system.users''
             [(USER_NAME_FIELD_NAME e, BString (user usr)),
              (USER_SOURCE_FIELD_NAME e, BString (db usr))]
             updateObj False writeConcern w of
        (Inl f, w') \<Rightarrow> (Inl f, w')
      | (Inr status, w') \<Rightarrow>
          if isOK status then (Inr status, w')
          else if code status = NoMatchingDocument then
            (Inr (mkStatus UserNotFound (''User '' @ getFullName e usr @ '' not found'')), w')
          else if code status = UnknownError then
            (Inr (mkStatus UserModificationFailed (reason status)), w')
          else (Inr status, w'))"

definition removePrivilegeDocuments ::
  "'s ext \<Rightarrow> BSONObj \<Rightarrow> BSONObj \<Rightarrow> 's world \<Rightarrow> (Status \<times> int) \<times> 's world" where
  "removePrivilegeDocuments e query writeConcern w =
     (case call_remove e ''admin.system.users'' query writeConcern w of
        ((status, numRemoved), w') \<Rightarrow>
          if code status = UnknownError then
            ((mkStatus UserModificationFailed (reason status), numRemoved), w')
          else ((status, numRemoved), w'))"

section \<open>A store with fixed answers\<close>

text \<open>
  Concrete collaborators on which the operations can be evaluated: a store whose state
  counts the calls it has served and which answers every call with the status \<open>st\<close>,
  the document \<open>doc\<close> and the count \<open>n\<close>; user names print as \<^verbatim>\<open>user@db\<close>; a
  database name is valid when it is not empty and has no dot.
\<close>

definition printUserName :: "UserName \<Rightarrow> string" where
  "printUserName u = user u @ ''@'' @ db u"

definition mockExt :: "bool \<Rightarrow> Status \<Rightarrow> BSONObj \<Rightarrow> int \<Rightarrow> nat ext" where
  "mockExt dbg st doc n =
     \<lparr>internalUserName = \<lparr>user = ''__system'', db = ''local''\<rparr>,
      validDBName = (\<lambda>d. d \<noteq> [] \<and> CHR ''.'' \<notin> set d),
      toString = printUserName,
      getFullName = printUserName,
      USER_NAME_FIELD_NAME = ''user'',
      USER_SOURCE_FIELD_NAME = ''db'',
      V1_USER_NAME_FIELD_NAME = ''user'',
      V1_USER_SOURCE_FIELD_NAME = ''userSource'',
      debugBuild = dbg,
      s_findUser = (\<lambda>ns q s. ((st, doc), Suc s)),
      s_insert = (\<lambda>ns d wc s. (st, Suc s)),
      s_update = (\<lambda>ns q u upsert multi wc s. ((st, n), Suc s)),
      s_remove = (\<lambda>ns q wc s. ((st, n), Suc s))\<rparr>"

definition alice :: UserName where
  "alice = \<lparr>user = ''alice'', db = ''db1''\<rparr>"

definition aliceDoc :: BSONObj where
  "aliceDoc = [(''user'', BString ''alice''), (''db'', BString ''db1'')]"

definition world0 :: "nat world" where
  "world0 = \<lparr>store = 0, calls = []\<rparr>"

section \<open>Properties\<close>

subsection \<open>What a recorded store call does to the world\<close>

lemma call_findUser_eq:
  "s_findUser e ns q (store w) = (r, s') \<Longrightarrow>
     call_findUser e ns q w = (r, \<lparr>store = s', calls = calls w @ [FindUser ns q]\<rparr>)"
  by (simp add: call_findUser_def)

lemma call_insert_eq:
  "s_insert e ns doc wc (store w) = (r, s') \<Longrightarrow>
     call_insert e ns doc wc w = (r, \<lparr>store = s', calls = calls w @ [Insert ns doc wc]\<rparr>)"
  by (simp add: call_insert_def)

lemma call_update_eq:
  "s_update e ns q u upsert multi wc (store w) = (r, s') \<Longrightarrow>
     call_update e ns q u upsert multi wc w =
       (r, \<lparr>store = s', calls = calls w @ [Update ns q u upsert multi wc]\<rparr>)"
  by (simp add: call_update_def)

lemma call_remove_eq:
  "s_remove e ns q wc (store w) = (r, s') \<Longrightarrow>
     call_remove e ns q wc w = (r, \<lparr>store = s', calls = calls w @ [Remove ns q wc]\<rparr>)"
  by (simp add: call_remove_def)

lemma queryPrivilegeDocument_eq:
  assumes "s_findUser e ns q (store w) = ((found, doc), s')"
  shows "queryPrivilegeDocument e userName ns q w =
     ((if code found = OK then (Status_OK, Some doc)
       else if code found = UserNotFound then
         (\<lparr>code = UserNotFound,
           reason = ''auth: couldn't find user '' @ toString e userName @ '', '' @ ns,
           location = 0\<rparr>, None)
       else (found, None)),
      \<lparr>store = s', calls = calls w @ [FindUser ns q]\<rparr>)"
  by (simp add: queryPrivilegeDocument_def call_findUser_eq [OF assms] isOK_def)

lemma queryPrivilegeDocument_world:
  "snd (queryPrivilegeDocument e userName ns q w) =
     \<lparr>store = snd (s_findUser e ns q (store w)), calls = calls w @ [FindUser ns q]\<rparr>"
proof -
  obtain found doc s' where r: "s_findUser e ns q (store w) = ((found, doc), s')"
    by (metis surj_pair)
  show ?thesis
    by (simp add: queryPrivilegeDocument_eq [OF r] r)
qed

lemma updateOne_eq:
  assumes "s_update e ns q u upsert False wc (store w) = ((st, n), s')"
  shows "updateOne e ns q u upsert wc w =
     ((if code st \<noteq> OK then Inr st
       else if debugBuild e \<and> n \<noteq> 1 \<and> n \<noteq> 0 then Inl DassertFailed
       else if n = 0 then Inr (mkStatus NoMatchingDocument ''No document found'')
       else Inr Status_OK),
      \<lparr>store = s', calls = calls w @ [Update ns q u upsert False wc]\<rparr>)"
  by (simp add: updateOne_def call_update_eq [OF assms] isOK_def)

subsection \<open>Looking a privilege document up\<close>

text \<open>
  C1. Whatever the schema version, asking \<open>getPrivilegeDocument\<close> for the internal
  user returns an \<open>InternalError\<close> status, stores no document, and leaves the store and
  the log of store calls as they were: \<open>_findUser\<close> is not called.
\<close>

theorem getPrivilegeDocument_internal_user:
  "getPrivilegeDocument e (internalUserName e) authzVersion w =
     ((\<lparr>code = InternalError,
        reason = ''Requested privilege document for the internal user'',
        location = 0\<rparr>, None), w)"
  by (simp add: getPrivilegeDocument_def mkStatus_def)

text \<open>
  C2. For a user name other than the internal one whose database name is valid, version 1
  makes exactly one store call, \<open>_findUser\<close> on \<^verbatim>\<open><db>.system.users\<close> with the filter
  (V1 user-name field = the user, V1 source field = null), and version 2 makes exactly
  one, on \<^verbatim>\<open>admin.system.users\<close> with the filter (user-name field = the user, source
  field = the db). The store is left in the state that call returns.
\<close>

theorem getPrivilegeDocument_query:
  assumes "userName \<noteq> internalUserName e" and "validDBName e (db userName)"
  shows "snd (getPrivilegeDocument e userName 1 w) =
           \<lparr>store = snd (s_findUser e (db userName @ ''.system.users'')
                            [(V1_USER_NAME_FIELD_NAME e, BString (user userName)),
                             (V1_USER_SOURCE_FIELD_NAME e, jstNULL)] (store w)),
            calls = calls w @
              [FindUser (db userName @ ''.system.users'')
                 [(V1_USER_NAME_FIELD_NAME e, BString (user userName)),
                  (V1_USER_SOURCE_FIELD_NAME e, jstNULL)]]\<rparr>
       \<and> snd (getPrivilegeDocument e userName 2 w) =
           \<lparr>store = snd (s_findUser e ''admin.system.users''
                            [(USER_NAME_FIELD_NAME e, BString (user userName)),
                             (USER_SOURCE_FIELD_NAME e, BString (db userName))] (store w)),
            calls = calls w @
              [FindUser ''admin.system.users''
                 [(USER_NAME_FIELD_NAME e, BString (user userName)),
                  (USER_SOURCE_FIELD_NAME e, BString (db userName))]]\<rparr>"
  using assms by (simp add: getPrivilegeDocument_def queryPrivilegeDocument_world)

theorem getPrivilegeDocument_query_witness:
  "alice \<noteq> internalUserName (mockExt False Status_OK aliceDoc 1)
   \<and> validDBName (mockExt False Status_OK aliceDoc 1) (db alice)
   \<and> snd (getPrivilegeDocument (mockExt False Status_OK aliceDoc 1) alice 1 world0) =
       \<lparr>store = 1,
        calls = [FindUser ''db1.system.users''
                   [(''user'', BString ''alice''), (''userSource'', jstNULL)]]\<rparr>
   \<and> snd (getPrivilegeDocument (mockExt False Status_OK aliceDoc 1) alice 2 world0) =
       \<lparr>store = 1,
        calls = [FindUser ''admin.system.users''
                   [(''user'', BString ''alice''), (''db'', BString ''db1'')]]\<rparr>"
  using getPrivilegeDocument_query [of alice "mockExt False Status_OK aliceDoc 1" world0]
  by (simp add: mockExt_def alice_def world0_def)

text \<open>
  C5. For a user name other than the internal one whose database name is valid, every
  version other than 1 and 2 gives an \<open>UnsupportedFormat\<close> status whose message ends
  with the version in decimal; no document is stored and the store is not called.
\<close>

theorem getPrivilegeDocument_unsupported_version:
  assumes "userName \<noteq> internalUserName e" and "validDBName e (db userName)"
    and "authzVersion \<noteq> 1" and "authzVersion \<noteq> 2"
  shows "getPrivilegeDocument e userName authzVersion w =
     ((\<lparr>code = UnsupportedFormat,
        reason = ''Unrecognized authorization format version: '' @ decimal authzVersion,
        location = 0\<rparr>, None), w)"
  using assms by (simp add: getPrivilegeDocument_def mkStatus_def)

theorem getPrivilegeDocument_unsupported_version_witness:
  "alice \<noteq> internalUserName (mockExt False Status_OK aliceDoc 1)
   \<and> validDBName (mockExt False Status_OK aliceDoc 1) (db alice)
   \<and> (3::int) \<noteq> 1 \<and> (3::int) \<noteq> 2 \<and> (- 12::int) \<noteq> 1 \<and> (- 12::int) \<noteq> 2
   \<and> getPrivilegeDocument (mockExt False Status_OK aliceDoc 1) alice 3 world0 =
       ((\<lparr>code = UnsupportedFormat,
          reason = ''Unrecognized authorization format version: 3'',
          location = 0\<rparr>, None), world0)
   \<and> getPrivilegeDocument (mockExt False Status_OK aliceDoc 1) alice (- 12) world0 =
       ((\<lparr>code = UnsupportedFormat,
          reason = ''Unrecognized authorization format version: -12'',
          location = 0\<rparr>, None), world0)"
proof -
  have d: "decimal 3 = ''3''" "decimal (- 12) = ''-12''"
    by (simp_all add: decimal_def decimal_nat.simps digit_def)
  show ?thesis
    using getPrivilegeDocument_unsupported_version
            [of alice "mockExt False Status_OK aliceDoc 1" 3 world0]
          getPrivilegeDocument_unsupported_version
            [of alice "mockExt False Status_OK aliceDoc 1" "- 12" world0]
    by (simp add: mockExt_def alice_def d)
qed

text \<open>
  C6. For a user name other than the internal one whose database name fails
  \<open>validDBName\<close>, every version (1 and 2 among them) gives a \<open>BadValue\<close> status whose
  message quotes the database name; no document is stored and the store is not called.
\<close>

theorem getPrivilegeDocument_bad_dbname:
  assumes "userName \<noteq> internalUserName e" and "\<not> validDBName e (db userName)"
  shows \<open>getPrivilegeDocument e userName authzVersion w =
     ((\<lparr>code = BadValue,
        reason = ''Bad database name "'' @ db userName @ ''"'',
        location = 0\<rparr>, None), w)\<close>
  using assms by (simp add: getPrivilegeDocument_def mkStatus_def)

theorem getPrivilegeDocument_bad_dbname_witness:
  \<open>\<lparr>user = ''bob'', db = ''a.b''\<rparr> \<noteq> internalUserName (mockExt False Status_OK aliceDoc 1)
   \<and> \<not> validDBName (mockExt False Status_OK aliceDoc 1) (db \<lparr>user = ''bob'', db = ''a.b''\<rparr>)
   \<and> getPrivilegeDocument (mockExt False Status_OK aliceDoc 1)
         \<lparr>user = ''bob'', db = ''a.b''\<rparr> 1 world0 =
       ((\<lparr>code = BadValue, reason = ''Bad database name "a.b"'', location = 0\<rparr>, None),
        world0)
   \<and> getPrivilegeDocument (mockExt False Status_OK aliceDoc 1)
         \<lparr>user = ''bob'', db = ''a.b''\<rparr> 2 world0 =
       ((\<lparr>code = BadValue, reason = ''Bad database name "a.b"'', location = 0\<rparr>, None),
        world0)\<close>
  using getPrivilegeDocument_bad_dbname
          [of "\<lparr>user = ''bob'', db = ''a.b''\<rparr>" "mockExt False Status_OK aliceDoc 1" 1 world0]
        getPrivilegeDocument_bad_dbname
          [of "\<lparr>user = ''bob'', db = ''a.b''\<rparr>" "mockExt False Status_OK aliceDoc 1" 2 world0]
  by (simp add: mockExt_def)

text \<open>
  C7. For a user name other than the internal one with a valid database name and version
  1 or 2, let \<open>ns\<close> and \<open>q\<close> be the collection and the filter of that version and
  \<open>found\<close> the status \<open>_findUser\<close> returns for them. If \<open>found\<close> has code
  \<open>UserNotFound\<close>, the result is a \<open>UserNotFound\<close> status whose message holds
  \<open>toString\<close> of the user name and then \<open>ns\<close>; any other failure is returned as it is.
  In both cases no document is stored.
\<close>

theorem getPrivilegeDocument_lookup_failure:
  assumes "userName \<noteq> internalUserName e" and "validDBName e (db userName)"
    and "(authzVersion = 1 \<and> ns = db userName @ ''.system.users''
            \<and> q = [(V1_USER_NAME_FIELD_NAME e, BString (user userName)),
                    (V1_USER_SOURCE_FIELD_NAME e, jstNULL)])
         \<or> (authzVersion = 2 \<and> ns = ''admin.system.users''
            \<and> q = [(USER_NAME_FIELD_NAME e, BString (user userName)),
                    (USER_SOURCE_FIELD_NAME e, BString (db userName))])"
    and "s_findUser e ns q (store w) = ((found, doc), s')"
    and "code found \<noteq> OK"
  shows "fst (getPrivilegeDocument e userName authzVersion w) =
     (if code found = UserNotFound then
        (\<lparr>code = UserNotFound,
          reason = ''auth: couldn't find user '' @ toString e userName @ '', '' @ ns,
          location = 0\<rparr>, None)
      else (found, None))"
  using assms by (auto simp add: getPrivilegeDocument_def queryPrivilegeDocument_eq)

theorem getPrivilegeDocument_lookup_failure_witness:
  "alice \<noteq> internalUserName (mockExt False (mkStatus UserNotFound ''none'') [] 0)
   \<and> validDBName (mockExt False (mkStatus UserNotFound ''none'') [] 0) (db alice)
   \<and> fst (getPrivilegeDocument (mockExt False (mkStatus UserNotFound ''none'') [] 0)
            alice 1 world0) =
       (\<lparr>code = UserNotFound,
         reason = ''auth: couldn't find user alice@db1, db1.system.users'',
         location = 0\<rparr>, None)
   \<and> fst (getPrivilegeDocument (mockExt False (mkStatus UserNotFound ''none'') [] 0)
            alice 2 world0) =
       (\<lparr>code = UserNotFound,
         reason = ''auth: couldn't find user alice@db1, admin.system.users'',
         location = 0\<rparr>, None)
   \<and> fst (getPrivilegeDocument (mockExt False (mkStatus (OtherCode 6) ''unreachable'') [] 0)
            alice 2 world0) =
       (\<lparr>code = OtherCode 6, reason = ''unreachable'', location = 0\<rparr>, None)"
  using getPrivilegeDocument_lookup_failure
          [of alice "mockExt False (mkStatus UserNotFound ''none'') [] 0" 1
              "''db1.system.users''" "[(''user'', BString ''alice''), (''userSource'', jstNULL)]"
              world0 "mkStatus UserNotFound ''none''" "[]" 1]
        getPrivilegeDocument_lookup_failure
          [of alice "mockExt False (mkStatus UserNotFound ''none'') [] 0" 2
              "''admin.system.users''" "[(''user'', BString ''alice''), (''db'', BString ''db1'')]"
              world0 "mkStatus UserNotFound ''none''" "[]" 1]
        getPrivilegeDocument_lookup_failure
          [of alice "mockExt False (mkStatus (OtherCode 6) ''unreachable'') [] 0" 2
              "''admin.system.users''" "[(''user'', BString ''alice''), (''db'', BString ''db1'')]"
              world0 "mkStatus (OtherCode 6) ''unreachable''" "[]" 1]
  by (simp add: mockExt_def alice_def world0_def mkStatus_def printUserName_def)

subsection \<open>The single-document update guard\<close>

text \<open>
  C3, as the code has it. When the store's \<open>update\<close> succeeds, a count of 0 gives a
  \<open>NoMatchingDocument\<close> status and a count of 1 gives success. Any other count stops a
  debug build at the \<^verbatim>\<open>dassert\<close>; a build without \<^verbatim>\<open>dassert\<close> returns
  success for it.
\<close>

theorem updateOne_count:
  assumes "s_update e ns q u upsert False wc (store w) = ((st, n), s')" and "code st = OK"
  shows "fst (updateOne e ns q u upsert wc w) =
     (if n = 0 then Inr \<lparr>code = NoMatchingDocument, reason = ''No document found'',
                          location = 0\<rparr>
      else if n = 1 then Inr Status_OK
      else if debugBuild e then Inl DassertFailed
      else Inr Status_OK)"
  by (simp add: updateOne_eq [OF assms(1)] assms(2) mkStatus_def)

theorem updateOne_count_witness:
  "code Status_OK = OK
   \<and> fst (updateOne (mockExt True Status_OK [] 0) ''admin.system.users'' aliceDoc [] False []
            world0) =
       Inr \<lparr>code = NoMatchingDocument, reason = ''No document found'', location = 0\<rparr>
   \<and> fst (updateOne (mockExt True Status_OK [] 1) ''admin.system.users'' aliceDoc [] False []
            world0) = Inr Status_OK
   \<and> fst (updateOne (mockExt True Status_OK [] 2) ''admin.system.users'' aliceDoc [] False []
            world0) = Inl DassertFailed"
  using updateOne_count [of "mockExt True Status_OK [] 0" "''admin.system.users''" aliceDoc
                            "[]" False "[]" world0 Status_OK 0 1]
        updateOne_count [of "mockExt True Status_OK [] 1" "''admin.system.users''" aliceDoc
                            "[]" False "[]" world0 Status_OK 1 1]
        updateOne_count [of "mockExt True Status_OK [] 2" "''admin.system.users''" aliceDoc
                            "[]" False "[]" world0 Status_OK 2 1]
  by (simp add: mockExt_def world0_def Status_OK_def)

text \<open>
  C3 fails as stated: in a build without \<^verbatim>\<open>dassert\<close>, a store whose \<open>update\<close>
  succeeds with a count of 2 makes \<open>updateOne\<close> return success.
\<close>

theorem updateOne_count_two_counterexample:
  "fst (s_update (mockExt False Status_OK [] 2) ''admin.system.users'' aliceDoc [] False False []
          (store world0)) = (Status_OK, 2)
   \<and> fst (updateOne (mockExt False Status_OK [] 2) ''admin.system.users'' aliceDoc [] False []
            world0) = Inr Status_OK"
  by (simp add: updateOne_def call_update_def mockExt_def world0_def Status_OK_def isOK_def)

subsection \<open>Changing privilege documents\<close>

text \<open>
  C4, as the code has it. When the store's \<open>insert\<close> reports \<open>DuplicateKey\<close> and the
  user-name and source fields of the document hold the strings \<open>u\<close> and \<open>s\<close>,
  \<open>insertPrivilegeDocument\<close> returns a status that keeps the code \<open>DuplicateKey\<close> and
  whose message is \<^verbatim>\<open>User "u@s" already exists\<close>.
\<close>

theorem insertPrivilegeDocument_duplicate:
  assumes "s_insert e ''admin.system.users'' userObj wc (store w) = (st, s')"
    and "code st = DuplicateKey"
    and "getField userObj (USER_NAME_FIELD_NAME e) = BString u"
    and "getField userObj (USER_SOURCE_FIELD_NAME e) = BString s"
  shows \<open>fst (insertPrivilegeDocument e dbname userObj wc w) =
     Inr \<lparr>code = DuplicateKey,
          reason = ''User "'' @ u @ ''@'' @ s @ ''" already exists'',
          location = 0\<rparr>\<close>
  using assms(2-4)
  by (simp add: insertPrivilegeDocument_def call_insert_eq [OF assms(1)] isOK_def
        String_of_def mkStatus_def)

theorem insertPrivilegeDocument_duplicate_witness:
  \<open>code (mkStatus DuplicateKey ''E11000 duplicate key error'') = DuplicateKey
   \<and> getField aliceDoc ''user'' = BString ''alice''
   \<and> getField aliceDoc ''db'' = BString ''db1''
   \<and> fst (insertPrivilegeDocument
            (mockExt False (mkStatus DuplicateKey ''E11000 duplicate key error'') [] 0)
            ''test'' aliceDoc [] world0) =
       Inr \<lparr>code = DuplicateKey, reason = ''User "alice@db1" already exists'',
            location = 0\<rparr>\<close>
  using insertPrivilegeDocument_duplicate
          [of "mockExt False (mkStatus DuplicateKey ''E11000 duplicate key error'') [] 0"
              aliceDoc "[]" world0 "mkStatus DuplicateKey ''E11000 duplicate key error''" 1
              "''alice''" "''db1''" "''test''"]
  by (simp add: mockExt_def aliceDoc_def world0_def mkStatus_def)

text \<open>
  C4 fails as stated: the status returned for a duplicate carries the code the store
  reported, \<open>DuplicateKey\<close>; the code is not replaced by another error kind.
\<close>

theorem insertPrivilegeDocument_duplicate_counterexample:
  \<open>fst (s_insert (mockExt False (mkStatus DuplicateKey ''E11000 duplicate key error'') [] 0)
          ''admin.system.users'' aliceDoc [] (store world0)) =
     \<lparr>code = DuplicateKey, reason = ''E11000 duplicate key error'', location = 0\<rparr>
   \<and> fst (insertPrivilegeDocument
            (mockExt False (mkStatus DuplicateKey ''E11000 duplicate key error'') [] 0)
            ''test'' aliceDoc [] world0) =
       Inr \<lparr>code = DuplicateKey, reason = ''User "alice@db1" already exists'',
            location = 0\<rparr>\<close>
  by (simp add: insertPrivilegeDocument_def call_insert_def mockExt_def aliceDoc_def
        world0_def mkStatus_def isOK_def String_of_def)

text \<open>
  C8. \<open>insertPrivilegeDocument\<close> delegates to the store's \<open>insert\<close>,
  \<open>removePrivilegeDocuments\<close> to the store's \<open>remove\<close>, and
  \<open>updatePrivilegeDocument\<close> to \<open>updateOne\<close>, which in turn calls the store's
  \<open>update\<close>. Let \<open>sti\<close>, \<open>stu\<close> and \<open>str\<close> be the statuses the store gives to
  these calls, and \<open>stg\<close> any status \<open>updateOne\<close> returns.

  \<^item> A status with code \<open>UnknownError\<close> (\<open>sti\<close>, \<open>stu\<close>, \<open>stg\<close> or \<open>str\<close>) comes
    back as a \<open>UserModificationFailed\<close> status, the kind the specification calls
    IdentityModificationFailed, with the same reason text.
  \<^item> Every status outside the codes each operation translates comes back as it is,
    success included: every \<open>sti\<close> other than \<open>DuplicateKey\<close> and \<open>UnknownError\<close>,
    every \<open>stg\<close> other than \<open>NoMatchingDocument\<close> and \<open>UnknownError\<close>, and every
    \<open>str\<close> other than \<open>UnknownError\<close>.
  \<^item> A failure \<open>stu\<close> of the store's \<open>update\<close> is such a \<open>stg\<close>, so it comes back
    as it is too, unless its code is \<open>NoMatchingDocument\<close> or \<open>UnknownError\<close>.
\<close>

theorem modification_status_translation:
  assumes "s_insert e ''admin.system.users'' userObj wc (store w) = (sti, si)"
    and "s_update e ''admin.system.users''
           [(USER_NAME_FIELD_NAME e, BString (user usr)),
            (USER_SOURCE_FIELD_NAME e, BString (db usr))]
           updateObj False False wc (store w) = ((stu, nu), su)"
    and "s_remove e ''admin.system.users'' query wc (store w) = ((str, nr), sr)"
  shows "(code sti = UnknownError \<longrightarrow>
            fst (insertPrivilegeDocument e dbname userObj wc w) =
              Inr \<lparr>code = UserModificationFailed, reason = reason sti, location = 0\<rparr>)
       \<and> (code sti \<noteq> UnknownError \<and> code sti \<noteq> DuplicateKey \<longrightarrow>
            fst (insertPrivilegeDocument e dbname userObj wc w) = Inr sti)
       \<and> (code stu = UnknownError \<longrightarrow>
            fst (updatePrivilegeDocument e usr updateObj wc w) =
              Inr \<lparr>code = UserModificationFailed, reason = reason stu, location = 0\<rparr>)
       \<and> (fst (updateOne e ''admin.system.users''
                  [(USER_NAME_FIELD_NAME e, BString (user usr)),
                   (USER_SOURCE_FIELD_NAME e, BString (db usr))]
                  updateObj False wc w) = Inr stg
            \<and> code stg = UnknownError \<longrightarrow>
            fst (updatePrivilegeDocument e usr updateObj wc w) =
              Inr \<lparr>code = UserModificationFailed, reason = reason stg, location = 0\<rparr>)
       \<and> (fst (updateOne e ''admin.system.users''
                  [(USER_NAME_FIELD_NAME e, BString (user usr)),
                   (USER_SOURCE_FIELD_NAME e, BString (db usr))]
                  updateObj False wc w) = Inr stg
            \<and> code stg \<noteq> UnknownError \<and> code stg \<noteq> NoMatchingDocument \<longrightarrow>
            fst (updatePrivilegeDocument e usr updateObj wc w) = Inr stg)
       \<and> (code stu \<noteq> OK \<and> code stu \<noteq> UnknownError \<and> code stu \<noteq> NoMatchingDocument \<longrightarrow>
            fst (updatePrivilegeDocument e usr updateObj wc w) = Inr stu)
       \<and> (code str = UnknownError \<longrightarrow>
            fst (removePrivilegeDocuments e query wc w) =
              (\<lparr>code = UserModificationFailed, reason = reason str, location = 0\<rparr>, nr))
       \<and> (code str \<noteq> UnknownError \<longrightarrow>
            fst (removePrivilegeDocuments e query wc w) = (str, nr))"
proof -
  obtain g wg where g: "updateOne e ''admin.system.users''
                          [(USER_NAME_FIELD_NAME e, BString (user usr)),
                           (USER_SOURCE_FIELD_NAME e, BString (db usr))]
                          updateObj False wc w = (g, wg)"
    by (metis surj_pair)
  have i: "code sti = UnknownError \<longrightarrow>
            fst (insertPrivilegeDocument e dbname userObj wc w) =
              Inr \<lparr>code = UserModificationFailed, reason = reason sti, location = 0\<rparr>"
    by (simp add: insertPrivilegeDocument_def call_insert_eq [OF assms(1)] isOK_def
          mkStatus_def)
  have i': "code sti \<noteq> UnknownError \<and> code sti \<noteq> DuplicateKey \<longrightarrow>
            fst (insertPrivilegeDocument e dbname userObj wc w) = Inr sti"
    by (simp add: insertPrivilegeDocument_def call_insert_eq [OF assms(1)] isOK_def)
  have u: "code stu = UnknownError \<longrightarrow>
            fst (updatePrivilegeDocument e usr updateObj wc w) =
              Inr \<lparr>code = UserModificationFailed, reason = reason stu, location = 0\<rparr>"
    by (simp add: updatePrivilegeDocument_def updateOne_eq [OF assms(2)] isOK_def
          mkStatus_def)
  have gu: "g = Inr stg \<and> code stg = UnknownError \<longrightarrow>
            fst (updatePrivilegeDocument e usr updateObj wc w) =
              Inr \<lparr>code = UserModificationFailed, reason = reason stg, location = 0\<rparr>"
    by (simp add: updatePrivilegeDocument_def g isOK_def mkStatus_def)
  have gp: "g = Inr stg \<and> code stg \<noteq> UnknownError \<and> code stg \<noteq> NoMatchingDocument \<longrightarrow>
            fst (updatePrivilegeDocument e usr updateObj wc w) = Inr stg"
    by (simp add: updatePrivilegeDocument_def g isOK_def)
  have u': "code stu \<noteq> OK \<and> code stu \<noteq> UnknownError \<and> code stu \<noteq> NoMatchingDocument \<longrightarrow>
            fst (updatePrivilegeDocument e usr updateObj wc w) = Inr stu"
    by (simp add: updatePrivilegeDocument_def updateOne_eq [OF assms(2)] isOK_def)
  have r: "code str = UnknownError \<longrightarrow>
            fst (removePrivilegeDocuments e query wc w) =
              (\<lparr>code = UserModificationFailed, reason = reason str, location = 0\<rparr>, nr)"
    by (simp add: removePrivilegeDocuments_def call_remove_eq [OF assms(3)] mkStatus_def)
  have r': "code str \<noteq> UnknownError \<longrightarrow>
            fst (removePrivilegeDocuments e query wc w) = (str, nr)"
    by (simp add: removePrivilegeDocuments_def call_remove_eq [OF assms(3)])
  from i i' u gu gp u' r r' show ?thesis
    by (simp add: g)
qed

theorem modification_status_translation_witness:
  "fst (insertPrivilegeDocument (mockExt False (mkStatus UnknownError ''boom'') [] 0)
          ''test'' aliceDoc [] world0) =
     Inr \<lparr>code = UserModificationFailed, reason = ''boom'', location = 0\<rparr>
   \<and> fst (updateOne (mockExt False (mkStatus UnknownError ''boom'') [] 0)
            ''admin.system.users'' [(''user'', BString ''alice''), (''db'', BString ''db1'')]
            [] False [] world0) =
       Inr \<lparr>code = UnknownError, reason = ''boom'', location = 0\<rparr>
   \<and> fst (updatePrivilegeDocument (mockExt False (mkStatus UnknownError ''boom'') [] 0)
            alice [] [] world0) =
       Inr \<lparr>code = UserModificationFailed, reason = ''boom'', location = 0\<rparr>
   \<and> fst (removePrivilegeDocuments (mockExt False (mkStatus UnknownError ''boom'') [] 0)
            aliceDoc [] world0) =
       (\<lparr>code = UserModificationFailed, reason = ''boom'', location = 0\<rparr>, 0)
   \<and> fst (insertPrivilegeDocument (mockExt False (mkStatus (OtherCode 13) ''denied'') [] 0)
            ''test'' aliceDoc [] world0) =
       Inr \<lparr>code = OtherCode 13, reason = ''denied'', location = 0\<rparr>
   \<and> fst (updatePrivilegeDocument (mockExt False (mkStatus (OtherCode 13) ''denied'') [] 0)
            alice [] [] world0) =
       Inr \<lparr>code = OtherCode 13, reason = ''denied'', location = 0\<rparr>
   \<and> fst (removePrivilegeDocuments (mockExt False (mkStatus (OtherCode 13) ''denied'') [] 0)
            aliceDoc [] world0) =
       (\<lparr>code = OtherCode 13, reason = ''denied'', location = 0\<rparr>, 0)
   \<and> fst (insertPrivilegeDocument (mockExt False Status_OK [] 1) ''test'' aliceDoc []
            world0) = Inr Status_OK
   \<and> fst (updateOne (mockExt False Status_OK [] 1)
            ''admin.system.users'' [(''user'', BString ''alice''), (''db'', BString ''db1'')]
            [] False [] world0) = Inr Status_OK
   \<and> fst (updatePrivilegeDocument (mockExt False Status_OK [] 1) alice [] [] world0) =
       Inr Status_OK
   \<and> fst (removePrivilegeDocuments (mockExt False Status_OK [] 1) aliceDoc [] world0) =
       (Status_OK, 1)"
  using modification_status_translation
          [where e = "mockExt False (mkStatus UnknownError ''boom'') [] 0"
             and userObj = aliceDoc and wc = "[]" and w = world0 and usr = alice
             and updateObj = "[]" and query = aliceDoc and dbname = "''test''"
             and sti = "mkStatus UnknownError ''boom''" and si = 1
             and stu = "mkStatus UnknownError ''boom''" and nu = 0 and su = 1
             and stg = "mkStatus UnknownError ''boom''"
             and str = "mkStatus UnknownError ''boom''" and nr = 0 and sr = 1]
        modification_status_translation
          [where e = "mockExt False (mkStatus (OtherCode 13) ''denied'') [] 0"
             and userObj = aliceDoc and wc = "[]" and w = world0 and usr = alice
             and updateObj = "[]" and query = aliceDoc and dbname = "''test''"
             and sti = "mkStatus (OtherCode 13) ''denied''" and si = 1
             and stu = "mkStatus (OtherCode 13) ''denied''" and nu = 0 and su = 1
             and stg = "mkStatus (OtherCode 13) ''denied''"
             and str = "mkStatus (OtherCode 13) ''denied''" and nr = 0 and sr = 1]
        modification_status_translation
          [where e = "mockExt False Status_OK [] 1"
             and userObj = aliceDoc and wc = "[]" and w = world0 and usr = alice
             and updateObj = "[]" and query = aliceDoc and dbname = "''test''"
             and sti = Status_OK and si = 1
             and stu = Status_OK and nu = 1 and su = 1
             and stg = Status_OK
             and str = Status_OK and nr = 1 and sr = 1]
  by (simp add: updateOne_def call_update_def isOK_def mockExt_def alice_def world0_def
        mkStatus_def Status_OK_def)

text \<open>
  C9. When the \<open>updateOne\<close> call of \<open>updatePrivilegeDocument\<close> returns a status with
  code \<open>NoMatchingDocument\<close>, the result is a \<open>UserNotFound\<close> status whose message
  holds \<open>getFullName\<close> of the user name.
\<close>

theorem updatePrivilegeDocument_no_match:
  assumes "fst (updateOne e ''admin.system.users''
                  [(USER_NAME_FIELD_NAME e, BString (user usr)),
                   (USER_SOURCE_FIELD_NAME e, BString (db usr))]
                  updateObj False wc w) = Inr st"
    and "code st = NoMatchingDocument"
  shows "fst (updatePrivilegeDocument e usr updateObj wc w) =
     Inr \<lparr>code = UserNotFound,
          reason = ''User '' @ getFullName e usr @ '' not found'',
          location = 0\<rparr>"
proof -
  obtain r w' where u: "updateOne e ''admin.system.users''
                          [(USER_NAME_FIELD_NAME e, BString (user usr)),
                           (USER_SOURCE_FIELD_NAME e, BString (db usr))]
                          updateObj False wc w = (r, w')"
    by (metis surj_pair)
  with assms(1) have r: "r = Inr st" by simp
  show ?thesis
    by (simp add: updatePrivilegeDocument_def u r assms(2) isOK_def mkStatus_def)
qed

theorem updatePrivilegeDocument_no_match_witness:
  "fst (updateOne (mockExt True Status_OK [] 0) ''admin.system.users''
          [(''user'', BString ''alice''), (''db'', BString ''db1'')] [] False [] world0) =
     Inr (mkStatus NoMatchingDocument ''No document found'')
   \<and> code (mkStatus NoMatchingDocument ''No document found'') = NoMatchingDocument
   \<and> fst (updatePrivilegeDocument (mockExt True Status_OK [] 0) alice [] [] world0) =
       Inr \<lparr>code = UserNotFound, reason = ''User alice@db1 not found'', location = 0\<rparr>"
  using updatePrivilegeDocument_no_match
          [of "mockExt True Status_OK [] 0" alice "[]" "[]" world0
              "mkStatus NoMatchingDocument ''No document found''"]
  by (simp add: updateOne_def call_update_def mockExt_def alice_def world0_def Status_OK_def
        isOK_def mkStatus_def printUserName_def)

text \<open>
  C10. The \<open>dbname\<close> argument of \<open>insertPrivilegeDocument\<close> has no effect: with any
  two values the status (or fault), the store and the log of store calls are the same,
  and the one store call made is an \<open>insert\<close> into \<^verbatim>\<open>admin.system.users\<close>.
\<close>

theorem insertPrivilegeDocument_dbname_unused:
  "insertPrivilegeDocument e dbname1 userObj wc w =
     insertPrivilegeDocument e dbname2 userObj wc w
   \<and> calls (snd (insertPrivilegeDocument e dbname1 userObj wc w)) =
       calls w @ [Insert ''admin.system.users'' userObj wc]"
proof -
  obtain st s' where r: "s_insert e ''admin.system.users'' userObj wc (store w) = (st, s')"
    by (metis surj_pair)
  show ?thesis
    by (simp add: insertPrivilegeDocument_def call_insert_eq [OF r] split: sum.splits)
qed

end
